theory Spec2Isabelle
  imports Main "HOL-Library.AList"
begin

section \<open>JavaScript values and objects\<close>

text \<open>
  The class \<open>RefManager\<close> is dynamically typed: the same parameter holds an item
  identifier or an options object, and its branches test truthiness and \<open>typeof\<close>.
  Values are therefore modelled as they are at run time. Numbers are the integers the
  identifiers range over. Objects live in a heap and are referred to by address, so that
  two references to one object see each other's property writes; \<open>JFun\<close> is an object
  that can be called (its \<open>typeof\<close> is \<open>function\<close>).
\<close>

datatype jsval =
    JUndefined
  | JNull
  | JBool bool
  | JNum int
  | JStr string
  | JObj nat
  | JFun nat

text \<open>
  An object has its own enumerable properties, in creation order, and the properties it
  reads through its prototype chain (the methods \<open>focus\<close> and \<open>scrollIntoView\<close> and the
  accessor \<open>parentNode\<close> of a DOM element are of that kind). \<open>domNode\<close> is what
  \<open>ReactDOM.findDOMNode\<close> answers for the object; React is not part of the repository.
  The members every object inherits from \<open>Object.prototype\<close> are not modelled:
  identifiers are taken not to be named \<open>constructor\<close>, \<open>toString\<close> and the like.
\<close>

record jsobj =
  own :: "(string \<times> jsval) list"
  inherited :: "(string \<times> jsval) list"
  domNode :: jsval

definition emptyObject :: jsobj where
  "emptyObject = \<lparr>own = [], inherited = [], domNode = JNull\<rparr>"

fun truthy :: "jsval \<Rightarrow> bool" where
  "truthy JUndefined = False"
| "truthy JNull = False"
| "truthy (JBool b) = b"
| "truthy (JNum n) = (n \<noteq> 0)"
| "truthy (JStr s) = (s \<noteq> [])"
| "truthy (JObj a) = True"
| "truthy (JFun a) = True"

fun typeof :: "jsval \<Rightarrow> string" where
  "typeof JUndefined = ''undefined''"
| "typeof JNull = ''object''"
| "typeof (JBool b) = ''boolean''"
| "typeof (JNum n) = ''number''"
| "typeof (JStr s) = ''string''"
| "typeof (JObj a) = ''object''"
| "typeof (JFun a) = ''function''"

text \<open>\<open>a && b\<close> and \<open>a || b\<close> yield one of their operands.\<close>

definition js_and :: "jsval \<Rightarrow> jsval \<Rightarrow> jsval" where
  "js_and a b = (if truthy a then b else a)"

subsection \<open>Property keys\<close>

text \<open>
  A property key is a string; a number used as a key is converted to its decimal
  numeral, so the keys \<open>1\<close> and \<open>'1'\<close> coincide. (An object used as a key is outside the
  identifier type; the model gives it the key of a plain object.)
\<close>

fun dec :: "nat \<Rightarrow> string" where
  "dec n = (if n < 10 then [char_of (48 + n)] else dec (n div 10) @ [char_of (48 + n mod 10)])"

declare dec.simps [simp del]

fun to_key :: "jsval \<Rightarrow> string" where
  "to_key JUndefined = ''undefined''"
| "to_key JNull = ''null''"
| "to_key (JBool b) = (if b then ''true'' else ''false'')"
| "to_key (JNum n) = (if n < 0 then CHR ''-'' # dec (nat (- n)) else dec (nat n))"
| "to_key (JStr s) = s"
| "to_key (JObj a) = ''[object Object]''"
| "to_key (JFun a) = ''[object Object]''"

text \<open>
  \<open>Object.keys\<close> lists the own keys that are array indices first, in ascending numeric
  order, then the other keys in creation order.
\<close>

definition is_digit :: "char \<Rightarrow> bool" where
  "is_digit c = (48 \<le> (of_char c :: nat) \<and> (of_char c :: nat) \<le> 57)"

definition parse_nat :: "string \<Rightarrow> nat" where
  "parse_nat k = foldl (\<lambda>acc c. 10 * acc + (of_char c - 48)) 0 k"

definition array_index :: "string \<Rightarrow> nat option" where
  "array_index k =
     (if k \<noteq> [] \<and> list_all is_digit k \<and> (k = ''0'' \<or> hd k \<noteq> CHR ''0'')
         \<and> parse_nat k < 2 ^ 32 - 1
      then Some (parse_nat k) else None)"

definition ordered_keys :: "(string \<times> jsval) list \<Rightarrow> string list" where
  "ordered_keys ps =
     (let ks = map fst ps
      in sort_key parse_nat (filter (\<lambda>k. array_index k \<noteq> None) ks)
         @ filter (\<lambda>k. array_index k = None) ks)"

subsection \<open>The heap\<close>

type_synonym heap = "jsobj list"

definition obj_at :: "heap \<Rightarrow> nat \<Rightarrow> jsobj" where
  "obj_at h a = (if a < length h then h ! a else emptyObject)"

definition obj_get :: "jsobj \<Rightarrow> string \<Rightarrow> jsval" where
  "obj_get ob k =
     (case map_of (own ob) k of
        Some v \<Rightarrow> v
      | None \<Rightarrow> (case map_of (inherited ob) k of Some v \<Rightarrow> v | None \<Rightarrow> JUndefined))"

text \<open>
  \<open>v[k]\<close> for a value that is not \<open>null\<close> or \<open>undefined\<close> (every read in the class is
  guarded by a truthiness test). A string has its characters and its length.
\<close>

fun get_prop :: "heap \<Rightarrow> jsval \<Rightarrow> string \<Rightarrow> jsval" where
  "get_prop h (JObj a) k = obj_get (obj_at h a) k"
| "get_prop h (JFun a) k = obj_get (obj_at h a) k"
| "get_prop h (JStr str) k =
     (case array_index k of
        Some n \<Rightarrow> (if n < length str then JStr [str ! n] else JUndefined)
      | None \<Rightarrow> (if k = ''length'' then JNum (int (length str)) else JUndefined))"
| "get_prop h v k = JUndefined"

fun Object_keys :: "heap \<Rightarrow> jsval \<Rightarrow> jsval list" where
  "Object_keys h (JObj a) = map JStr (ordered_keys (own (obj_at h a)))"
| "Object_keys h (JFun a) = map JStr (ordered_keys (own (obj_at h a)))"
| "Object_keys h (JStr str) = map (\<lambda>i. JStr (dec i)) [0 ..< length str]"
| "Object_keys h v = []"

text \<open>
  \<open>v[k] = x\<close>. The class is strict-mode code, so writing a property of a primitive
  value throws a \<open>TypeError\<close>.
\<close>

datatype error = TypeError

fun put_prop :: "heap \<Rightarrow> jsval \<Rightarrow> string \<Rightarrow> jsval \<Rightarrow> error + heap" where
  "put_prop h (JObj a) k x =
     Inr (h[a := (obj_at h a)\<lparr>own := AList.update k x (own (obj_at h a))\<rparr>])"
| "put_prop h (JFun a) k x =
     Inr (h[a := (obj_at h a)\<lparr>own := AList.update k x (own (obj_at h a))\<rparr>])"
| "put_prop h v k x = Inl TypeError"

text \<open>
  The own enumerable properties an object spread \<open>{...v}\<close> copies. A primitive
  contributes nothing but, for a string, index keys.
\<close>

fun own_props :: "heap \<Rightarrow> jsval \<Rightarrow> (string \<times> jsval) list" where
  "own_props h (JObj a) = own (obj_at h a)"
| "own_props h (JFun a) = own (obj_at h a)"
| "own_props h (JStr str) = map (\<lambda>i. (dec i, JStr [str ! i])) [0 ..< length str]"
| "own_props h v = []"

text \<open>An object literal is built left to right; a later property replaces an earlier one.\<close>

definition literal :: "(string \<times> jsval) list \<Rightarrow> (string \<times> jsval) list" where
  "literal ps = foldl (\<lambda>acc (k, v). AList.update k v acc) [] ps"

definition field_of :: "(string \<times> jsval) list \<Rightarrow> string \<Rightarrow> jsval" where
  "field_of ps k = (case map_of ps k of Some v \<Rightarrow> v | None \<Rightarrow> JUndefined)"

subsection \<open>Arrays\<close>

text \<open>\<open>xs[i]\<close> is \<open>undefined\<close> out of range; \<open>indexOf\<close> compares with \<open>===\<close> and answers -1.\<close>

definition arr_at :: "jsval list \<Rightarrow> int \<Rightarrow> jsval" where
  "arr_at xs i = (if 0 \<le> i \<and> i < int (length xs) then xs ! nat i else JUndefined)"

fun indexOf :: "'a list \<Rightarrow> 'a \<Rightarrow> int" where
  "indexOf [] x = -1"
| "indexOf (y # ys) x = (if y = x then 0 else (let r = indexOf ys x in if r = -1 then -1 else r + 1))"

text \<open>
  \<open>xs.splice(start, deleteCount)\<close> removes the elements from the array and returns them;
  the pair is (removed elements, array afterwards). With one argument it removes to the end.
\<close>

definition splice :: "nat \<Rightarrow> nat \<Rightarrow> 'a list \<Rightarrow> 'a list \<times> 'a list" where
  "splice start deleteCount xs =
     (take deleteCount (drop start xs), take start xs @ drop (start + deleteCount) xs)"

definition splice_from :: "nat \<Rightarrow> 'a list \<Rightarrow> 'a list \<times> 'a list" where
  "splice_from start xs = (drop start xs, take start xs)"

section \<open>The RefManager instance\<close>

text \<open>
  \<open>NotProvided\<close> is the string constant the methods use as the default of their
  parameters; a default applies when the argument is missing or \<open>undefined\<close>.
\<close>

definition NotProvided :: jsval where
  "NotProvided = JStr ''NOT_PROVIDED''"

definition dflt :: "jsval \<Rightarrow> jsval \<Rightarrow> jsval" where
  "dflt d v = (if v = JUndefined then d else v)"

record FocusObject =
  fo_ref :: jsval
  fo_DOMRef :: jsval
  fo_id :: jsval
  fo_collectionId :: jsval
  fo_context :: jsval
  fo_applied :: jsval

record ScrollObject =
  so_id :: jsval
  so_collectionId :: jsval
  so_ref :: jsval
  so_DOMRef :: jsval
  so_applied :: jsval

text \<open>The empty object \<open>{}\<close> read as a focus object: every field is \<open>undefined\<close>.\<close>

definition emptyFocus :: FocusObject where
  "emptyFocus = \<lparr>fo_ref = JUndefined, fo_DOMRef = JUndefined, fo_id = JUndefined,
     fo_collectionId = JUndefined, fo_context = JUndefined, fo_applied = JUndefined\<rparr>"

text \<open>
  What the instance does to its surroundings is recorded as a sequence of events: the
  calls of the DOM methods \<open>focus()\<close> and \<open>scrollIntoView(...)\<close> with their receiver, and
  the calls of the focus listeners with their two arguments. A listener is a function,
  known by its identity. The bodies of the DOM methods and of the listeners are not part
  of the class; they are taken to return normally and not to call back into the instance.
\<close>

type_synonym listener = nat

datatype event =
    FocusCall jsval
  | ScrollIntoViewCall jsval "jsval list"
  | ListenerCall listener FocusObject FocusObject

text \<open>
  The fields \<open>_refs\<close>, \<open>_focused\<close> and \<open>_focusListeners\<close> of the instance, with the heap
  of the objects they refer to and the events so far.
\<close>

record state =
  refs :: "string \<rightharpoonup> jsval"
  focused :: FocusObject
  focusListeners :: "listener list"
  heap :: heap
  events :: "event list"

definition constructor :: "heap \<Rightarrow> event list \<Rightarrow> state" where
  "constructor h es =
     \<lparr>refs = Map.empty, focused = emptyFocus, focusListeners = [], heap = h, events = es\<rparr>"

subsection \<open>Static methods\<close>

text \<open>
  \<open>ReactDOM.findDOMNode\<close> belongs to React. It is read off the object here and answers
  \<open>null\<close> for anything else; the exception React raises for an object that is not a
  mounted component is not modelled.
\<close>

definition findDOMNode :: "heap \<Rightarrow> jsval \<Rightarrow> jsval" where
  "findDOMNode h v =
     (case v of JObj a \<Rightarrow> domNode (obj_at h a) | JFun a \<Rightarrow> domNode (obj_at h a) | _ \<Rightarrow> JNull)"

text \<open>\<open>document.activeElement\<close> is read from the browser; it is a parameter here.\<close>

definition refIsFocused :: "jsval \<Rightarrow> heap \<Rightarrow> jsval \<Rightarrow> jsval" where
  "refIsFocused activeElement h ref =
     js_and ref (js_and (JBool (ref = activeElement)) (JBool (truthy (get_prop h ref ''parentNode''))))"

definition static_focus :: "jsval \<Rightarrow> state \<Rightarrow> jsval \<times> state" where
  "static_focus ref s =
     (if truthy ref then
        (if truthy (get_prop (heap s) ref ''focus'') then
           (ref, s\<lparr>events := events s @ [FocusCall ref]\<rparr>)
         else
           (let DOMRef = findDOMNode (heap s) ref
            in if truthy DOMRef \<and> truthy (get_prop (heap s) DOMRef ''parentNode'') then
                 (DOMRef, s\<lparr>events := events s @ [FocusCall DOMRef]\<rparr>)
               else (JNull, s)))
      else (JNull, s))"

definition static_scrollTo :: "jsval \<Rightarrow> jsval \<Rightarrow> state \<Rightarrow> jsval \<times> state" where
  "static_scrollTo ref options0 s =
     (let options = dflt NotProvided options0
      in if truthy ref then
           (if truthy (get_prop (heap s) ref ''scrollIntoView'') then
              (ref, s\<lparr>events := events s @ [ScrollIntoViewCall ref []]\<rparr>)
            else
              (let domRef = findDOMNode (heap s) ref
               in if truthy domRef \<and> truthy (get_prop (heap s) domRef ''parentNode'') then
                    (domRef, s\<lparr>events := events s @
                       [ScrollIntoViewCall domRef [if options = NotProvided then JBool False else options]]\<rparr>)
                  else (JNull, s)))
         else (JNull, s))"

subsection \<open>Refs\<close>

definition refs_at :: "state \<Rightarrow> jsval \<Rightarrow> jsval" where
  "refs_at s k = (case refs s (to_key k) of Some v \<Rightarrow> v | None \<Rightarrow> JUndefined)"

definition set_ref :: "jsval \<Rightarrow> jsval \<Rightarrow> jsval \<Rightarrow> state \<Rightarrow> error + state" where
  "set_ref collectionId itemIdOrRef0 ref0 s =
     (let itemIdOrRef = dflt NotProvided itemIdOrRef0;
          ref = dflt NotProvided ref0
      in if ref = NotProvided then
           Inr (s\<lparr>refs := (refs s)(to_key collectionId \<mapsto> itemIdOrRef)\<rparr>)
         else
           (let collectionRef = refs_at s collectionId;
                s1 = (if \<not> truthy collectionRef then
                        s\<lparr>refs := (refs s)(to_key collectionId \<mapsto> JObj (length (heap s))),
                          heap := heap s @ [emptyObject]\<rparr>
                      else s)
            in case put_prop (heap s1) (refs_at s1 collectionId) (to_key itemIdOrRef) ref of
                 Inl e \<Rightarrow> Inl e
               | Inr h \<Rightarrow> Inr (s1\<lparr>heap := h\<rparr>)))"

definition get :: "jsval \<Rightarrow> jsval \<Rightarrow> state \<Rightarrow> jsval" where
  "get collectionId0 itemId0 s =
     (let collectionId = dflt NotProvided collectionId0;
          itemId = dflt NotProvided itemId0
      in if itemId = NotProvided then refs_at s collectionId
         else js_and (refs_at s collectionId)
                (get_prop (heap s) (refs_at s collectionId) (to_key itemId)))"

subsection \<open>Focus\<close>

definition setCurrentFocus :: "FocusObject \<Rightarrow> state \<Rightarrow> FocusObject \<times> state" where
  "setCurrentFocus focused' s =
     (let previousFocus = focused s;
          s1 = s\<lparr>focused := focused'\<rparr>;
          s2 = fold (\<lambda>listener st.
                  st\<lparr>events := events st @ [ListenerCall listener previousFocus focused']\<rparr>)
                 (focusListeners s1) s1
      in (focused s2, s2))"

text \<open>
  \<open>this._focused || {}\<close>: the field holds a focus object, and an object is truthy, so
  the alternative is never taken.
\<close>

definition getCurrentFocus :: "state \<Rightarrow> FocusObject" where
  "getCurrentFocus s = focused s"

definition isFocusedRefInDOM :: "jsval \<Rightarrow> state \<Rightarrow> jsval" where
  "isFocusedRefInDOM activeElement s =
     refIsFocused activeElement (heap s) (fo_DOMRef (getCurrentFocus s))"

text \<open>The options of \<open>focus\<close>, as its parameter pattern \<open>{ id, collectionId, context }\<close> reads them.\<close>

record focus_opts =
  o_id :: jsval
  o_collectionId :: jsval
  o_context :: jsval

definition destructure :: "(string \<times> jsval) list \<Rightarrow> focus_opts" where
  "destructure ps =
     \<lparr>o_id = field_of ps ''id'', o_collectionId = field_of ps ''collectionId'',
      o_context = field_of ps ''context''\<rparr>"

definition focus :: "jsval \<Rightarrow> focus_opts \<Rightarrow> state \<Rightarrow> FocusObject \<times> state" where
  "focus ref opts s =
     (if truthy ref then
        (let (DOMRef, s1) = static_focus ref s
         in setCurrentFocus
              \<lparr>fo_ref = ref, fo_DOMRef = DOMRef, fo_id = o_id opts,
               fo_collectionId = o_collectionId opts, fo_context = o_context opts,
               fo_applied = JBool (truthy DOMRef)\<rparr> s1)
      else
        (\<lparr>fo_ref = JNull, fo_DOMRef = JNull, fo_id = o_id opts,
          fo_collectionId = o_collectionId opts, fo_context = o_context opts,
          fo_applied = JBool False\<rparr>, s))"

text \<open>
  The pair \<open>[_itemId, _options]\<close> that \<open>focusById\<close> computes when its third argument is
  not given; \<open>_options\<close> is kept as the properties its spread copies. (The two
  \<open>console.warn\<close> calls that follow only print.)
\<close>

definition focusById_args :: "heap \<Rightarrow> jsval \<Rightarrow> jsval \<times> (string \<times> jsval) list" where
  "focusById_args h itemIdOrOptions =
     (if itemIdOrOptions = NotProvided then (JUndefined, [])
      else if typeof itemIdOrOptions = ''object'' then
        (JUndefined, if truthy itemIdOrOptions then own_props h itemIdOrOptions else [])
      else (itemIdOrOptions, []))"

definition focusById :: "jsval \<Rightarrow> jsval \<Rightarrow> jsval \<Rightarrow> state \<Rightarrow> FocusObject \<times> state" where
  "focusById collectionId itemIdOrOptions0 options0 s =
     (let itemIdOrOptions = dflt NotProvided itemIdOrOptions0;
          options = dflt NotProvided options0
      in if options = NotProvided then
           (let (itemId', options') = focusById_args (heap s) itemIdOrOptions
            in if truthy itemId' then
                 focus (get collectionId itemId' s)
                   (destructure (literal
                      ([(''id'', itemId'), (''collectionId'', collectionId)] @ options'))) s
               else
                 focus (get collectionId JUndefined s)
                   (destructure (literal ([(''collectionId'', collectionId)] @ options'))) s)
         else
           focus (get collectionId itemIdOrOptions s)
             (destructure (literal
                (own_props (heap s) options
                 @ [(''id'', itemIdOrOptions), (''collectionId'', collectionId)]))) s)"

subsection \<open>Moving the focus through a collection\<close>

text \<open>
  The options of \<open>focusNext\<close>. \<open>indexes\<close> is \<open>None\<close> when the option is missing (or
  falsy); an array, even an empty one, is truthy. \<open>collectionWidth\<close> is a number,
  \<open>None\<close> when missing.
\<close>

record next_opts =
  n_direction :: jsval
  n_indexes :: "jsval list option"
  n_collectionId :: jsval
  n_context :: jsval
  n_collectionWidth :: "int option"
  n_yWrap :: jsval
  n_xWrap :: jsval

definition LEFT :: jsval where "LEFT = JStr ''LEFT''"
definition RIGHT :: jsval where "RIGHT = JStr ''RIGHT''"
definition UP :: jsval where "UP = JStr ''UP''"
definition DOWN :: jsval where "DOWN = JStr ''DOWN''"

definition indexesToUse :: "heap \<Rightarrow> jsval \<Rightarrow> jsval list option \<Rightarrow> jsval list" where
  "indexesToUse h refCollection indexes =
     (case indexes of Some ixs \<Rightarrow> ixs | None \<Rightarrow> Object_keys h refCollection)"

text \<open>
  The function expression that computes \<open>nextRefId\<close> from the index of the focused
  identifier. No branch answers for a direction that is none of the four: the result is
  \<open>undefined\<close> then.
\<close>

definition nextRefId ::
  "jsval \<Rightarrow> int \<Rightarrow> jsval \<Rightarrow> jsval \<Rightarrow> jsval list \<Rightarrow> int \<Rightarrow> jsval" where
  "nextRefId direction collectionWidth yWrap xWrap ixs refIdsIndex =
     (if direction = LEFT then
        (let nextRefIndex = refIdsIndex - 1
         in if nextRefIndex \<ge> 0 then arr_at ixs (refIdsIndex - 1)
            else if truthy xWrap then arr_at ixs (int (length ixs) - 1)
            else arr_at ixs 0)
      else if direction = RIGHT then
        (let nextRefIndex = refIdsIndex + 1
         in if nextRefIndex < int (length ixs) then arr_at ixs (refIdsIndex + 1)
            else if truthy xWrap then arr_at ixs 0
            else arr_at ixs (int (length ixs) - 1))
      else if direction = UP then
        (let nextRefIndex = refIdsIndex - collectionWidth
         in if nextRefIndex \<ge> 0 then arr_at ixs (refIdsIndex - collectionWidth)
            else if truthy yWrap then arr_at ixs (int (length ixs) - 1)
            else arr_at ixs 0)
      else if direction = DOWN then
        (let nextRefIndex = refIdsIndex + collectionWidth
         in if nextRefIndex < int (length ixs) then arr_at ixs (refIdsIndex + collectionWidth)
            else if truthy yWrap then arr_at ixs 0
            else arr_at ixs (int (length ixs) - collectionWidth))
      else JUndefined)"

definition focusNext :: "jsval \<Rightarrow> next_opts \<Rightarrow> state \<Rightarrow> FocusObject \<times> state" where
  "focusNext refCollection opts s =
     (let direction = dflt RIGHT (n_direction opts);
          indexes = n_indexes opts;
          collectionId = n_collectionId opts;
          context = n_context opts;
          collectionWidth = (case n_collectionWidth opts of None \<Rightarrow> 1 | Some w \<Rightarrow> w);
          yWrap = dflt (JBool False) (n_yWrap opts);
          xWrap = dflt (JBool False) (n_xWrap opts)
      in if \<not> truthy refCollection then
           (\<lparr>fo_ref = JNull, fo_DOMRef = JNull, fo_id = JUndefined,
             fo_collectionId = collectionId, fo_context = context,
             fo_applied = JBool False\<rparr>, s)
         else
           (let currentFocus = getCurrentFocus s;
                ixs = indexesToUse (heap s) refCollection indexes;
                refIdsIndex = indexOf ixs (fo_id currentFocus)
            in if fo_collectionId currentFocus \<noteq> collectionId \<or> refIdsIndex = -1 then
                 (let firstRefId = arr_at ixs 0
                  in focus (get_prop (heap s) refCollection (to_key firstRefId))
                       \<lparr>o_id = firstRefId, o_collectionId = collectionId,
                        o_context = context\<rparr> s)
               else
                 (let nextRefId = nextRefId direction collectionWidth yWrap xWrap ixs refIdsIndex;
                      nextRef = get_prop (heap s) refCollection (to_key nextRefId)
                  in focus nextRef
                       \<lparr>o_id = nextRefId, o_collectionId = collectionId,
                        o_context = context\<rparr> s)))"

text \<open>\<open>focusNextById\<close> passes \<open>{...options, collectionId: collectionId}\<close>.\<close>

definition focusNextById :: "jsval \<Rightarrow> next_opts \<Rightarrow> state \<Rightarrow> FocusObject \<times> state" where
  "focusNextById collectionId options s =
     (let refCollection = get collectionId JUndefined s
      in focusNext refCollection (options\<lparr>n_collectionId := collectionId\<rparr>) s)"

subsection \<open>Scrolling\<close>

text \<open>The pair \<open>[_itemId, _options]\<close> that \<open>scrollToById\<close> computes from its arguments.\<close>

definition scrollToById_args :: "jsval \<Rightarrow> jsval \<Rightarrow> jsval \<times> jsval" where
  "scrollToById_args itemIdOrOptions options =
     (if options = NotProvided then
        (if itemIdOrOptions = NotProvided then (NotProvided, NotProvided)
         else if typeof itemIdOrOptions = ''string'' then (itemIdOrOptions, NotProvided)
         else (NotProvided, itemIdOrOptions))
      else (itemIdOrOptions, options))"

definition scrollToById :: "jsval \<Rightarrow> jsval \<Rightarrow> jsval \<Rightarrow> state \<Rightarrow> ScrollObject \<times> state" where
  "scrollToById collectionId itemIdOrOptions0 options0 s =
     (let itemIdOrOptions = dflt NotProvided itemIdOrOptions0;
          options = dflt NotProvided options0;
          (itemId', options') = scrollToById_args itemIdOrOptions options;
          ref = get collectionId itemId' s
      in if truthy ref then
           (let (scrolledToRef, s1) = static_scrollTo (get_prop (heap s) ref ''DOMRef'') options' s
            in (\<lparr>so_id = itemId', so_collectionId = collectionId, so_ref = ref,
                 so_DOMRef = scrolledToRef, so_applied = JBool (truthy scrolledToRef)\<rparr>, s1))
         else
           (\<lparr>so_id = itemId', so_collectionId = collectionId, so_ref = JNull,
             so_DOMRef = JNull, so_applied = JBool False\<rparr>, s))"

text \<open>
  In \<open>scrollToFocused\<close> the test \<open>if (currentFocusRef)\<close> is on the object that
  \<open>getCurrentFocus\<close> returns, which is truthy: only the first branch runs.
\<close>

definition scrollToFocused :: "jsval \<Rightarrow> state \<Rightarrow> ScrollObject \<times> state" where
  "scrollToFocused options0 s =
     (let options = dflt NotProvided options0;
          currentFocusRef = getCurrentFocus s;
          (scrolledToRef, s1) = static_scrollTo (fo_DOMRef currentFocusRef) options s
      in (\<lparr>so_id = fo_id currentFocusRef, so_collectionId = fo_collectionId currentFocusRef,
           so_ref = fo_ref currentFocusRef, so_DOMRef = scrolledToRef,
           so_applied = JBool (truthy scrolledToRef)\<rparr>, s1))"

subsection \<open>Focus listeners\<close>

definition addFocusChangeListener :: "listener \<Rightarrow> state \<Rightarrow> listener \<times> state" where
  "addFocusChangeListener listener s =
     (listener, s\<lparr>focusListeners := focusListeners s @ [listener]\<rparr>)"

text \<open>
  The array literal of \<open>removeFocusChangeListener\<close> evaluates its two \<open>splice\<close> calls
  from left to right, and each of them changes the array it is called on: the second
  call sees what the first has left.
\<close>

definition removeFocusChangeListener :: "listener \<Rightarrow> state \<Rightarrow> state" where
  "removeFocusChangeListener listener s =
     (let listenerIndex = indexOf (focusListeners s) listener
      in if listenerIndex \<noteq> -1 then
           (let (front, arr1) = splice 0 (nat listenerIndex) (focusListeners s);
                (back, arr2) = splice_from (nat listenerIndex + 1) arr1
            in s\<lparr>focusListeners := front @ back\<rparr>)
         else s)"

subsection \<open>Reading the event sequence\<close>

definition is_listener_call :: "event \<Rightarrow> bool" where
  "is_listener_call e = (case e of ListenerCall l p n \<Rightarrow> True | _ \<Rightarrow> False)"

definition listener_calls :: "event list \<Rightarrow> event list" where
  "listener_calls es = filter is_listener_call es"

section \<open>The earlier revision of \<open>focusNext\<close>\<close>

text \<open>
  The repository also holds an earlier revision of the class. Its fields, its
  \<open>setCurrentFocus\<close> and its \<open>getCurrentFocus\<close> are the ones above. Its \<open>focus\<close> records only
  \<open>ref\<close>, \<open>id\<close> and \<open>context\<close> (the other fields of the focus object stay \<open>undefined\<close>) and
  returns nothing when there is no ref or when \<open>options.DOMOnly\<close> is \<open>true\<close>. Its
  \<open>focusNext\<close> has no guard for a missing collection and does not read \<open>collectionId\<close>:
  it tests only whether the focused \<open>id\<close> occurs in the sequence. Reading a property of
  \<open>undefined\<close> or \<open>null\<close>, or passing one of them to \<open>Object.keys\<close>, throws a \<open>TypeError\<close>.
  A result of \<open>None\<close> is the value \<open>undefined\<close> of a method that returns nothing.
\<close>

definition nullish :: "jsval \<Rightarrow> bool" where
  "nullish v = (v = JUndefined \<or> v = JNull)"

record focus_opts_rev1 =
  o1_id :: jsval
  o1_context :: jsval
  o1_DOMOnly :: jsval

definition focus_rev1 ::
  "jsval \<Rightarrow> focus_opts_rev1 \<Rightarrow> state \<Rightarrow> error + (FocusObject option \<times> state)" where
  "focus_rev1 ref options s =
     (if truthy ref then
        (case (if truthy (get_prop (heap s) ref ''focus'') then
                 Inr (s\<lparr>events := events s @ [FocusCall ref]\<rparr>)
               else
                 (let node = findDOMNode (heap s) ref
                  in if nullish node then Inl TypeError
                     else Inr (s\<lparr>events := events s @ [FocusCall node]\<rparr>))) of
           Inl e \<Rightarrow> Inl e
         | Inr s1 \<Rightarrow>
             (if o1_DOMOnly options = JBool True then Inr (None, s1)
              else
                (let (r, s2) = setCurrentFocus
                       \<lparr>fo_ref = ref, fo_DOMRef = JUndefined, fo_id = o1_id options,
                        fo_collectionId = JUndefined, fo_context = o1_context options,
                        fo_applied = JUndefined\<rparr> s1
                 in Inr (Some r, s2))))
      else Inr (None, s))"

definition focusNext_rev1 ::
  "jsval \<Rightarrow> next_opts \<Rightarrow> state \<Rightarrow> error + (FocusObject option \<times> state)" where
  "focusNext_rev1 refCollection opts s =
     (let direction = dflt RIGHT (n_direction opts);
          indexes = n_indexes opts;
          context = n_context opts;
          collectionWidth = (case n_collectionWidth opts of None \<Rightarrow> 1 | Some w \<Rightarrow> w);
          yWrap = dflt (JBool False) (n_yWrap opts);
          xWrap = dflt (JBool False) (n_xWrap opts);
          id' = fo_id (getCurrentFocus s)
      in if indexes = None \<and> nullish refCollection then Inl TypeError
         else
           (let ixs = indexesToUse (heap s) refCollection indexes;
                refIdsIndex = indexOf ixs id'
            in if refIdsIndex = -1 then
                 (let firstRefId = arr_at ixs 0
                  in if nullish refCollection then Inl TypeError
                     else
                       (case focus_rev1 (get_prop (heap s) refCollection (to_key firstRefId))
                               \<lparr>o1_id = firstRefId, o1_context = context,
                                o1_DOMOnly = JUndefined\<rparr> s of
                          Inl e \<Rightarrow> Inl e
                        | Inr (r, s1) \<Rightarrow> Inr (Some (getCurrentFocus s1), s1)))
               else
                 (let nextRefId = nextRefId direction collectionWidth yWrap xWrap ixs refIdsIndex
                  in if nullish refCollection then Inl TypeError
                     else
                       (let nextRef = get_prop (heap s) refCollection (to_key nextRefId)
                        in if truthy nextRef then
                             (case focus_rev1 nextRef
                                     \<lparr>o1_id = nextRefId, o1_context = context,
                                      o1_DOMOnly = JUndefined\<rparr> s of
                                Inl e \<Rightarrow> Inl e
                              | Inr (r, s1) \<Rightarrow> Inr (Some (getCurrentFocus s1), s1))
                           else Inr (None, s)))))"

section \<open>Example instances\<close>

text \<open>
  A DOM element has the methods \<open>focus\<close> and \<open>scrollIntoView\<close> and a parent node, all
  read through its prototype, and no property named \<open>DOMRef\<close>.
\<close>

definition element :: jsobj where
  "element =
     \<lparr>own = [],
      inherited = [(''focus'', JFun 0), (''scrollIntoView'', JFun 0), (''parentNode'', JObj 0)],
      domNode = JNull\<rparr>"

text \<open>
  A grid of six elements (addresses 1 to 6) registered as the items \<open>a\<close> to \<open>f\<close> of the
  collection \<open>grid\<close> (the object at address 7), a toolbar element (address 8) registered
  under the single identifier \<open>toolbar\<close>, two listeners, and the item \<open>e\<close> in focus.
\<close>

definition grid_ids :: "jsval list" where
  "grid_ids = [JStr ''a'', JStr ''b'', JStr ''c'', JStr ''d'', JStr ''e'', JStr ''f'']"

definition grid_heap :: heap where
  "grid_heap =
     [emptyObject, element, element, element, element, element, element,
      \<lparr>own = [(''a'', JObj 1), (''b'', JObj 2), (''c'', JObj 3),
              (''d'', JObj 4), (''e'', JObj 5), (''f'', JObj 6)],
       inherited = [], domNode = JNull\<rparr>,
      element]"

definition focus_on :: "string \<Rightarrow> nat \<Rightarrow> FocusObject" where
  "focus_on i a =
     \<lparr>fo_ref = JObj a, fo_DOMRef = JObj a, fo_id = JStr i, fo_collectionId = JStr ''grid'',
      fo_context = JUndefined, fo_applied = JBool True\<rparr>"

definition grid_state :: state where
  "grid_state =
     \<lparr>refs = [''grid'' \<mapsto> JObj 7, ''toolbar'' \<mapsto> JObj 8],
      focused = focus_on ''e'' 5,
      focusListeners = [0, 1],
      heap = grid_heap,
      events = []\<rparr>"

definition grid_opts :: "jsval \<Rightarrow> jsval \<Rightarrow> next_opts" where
  "grid_opts direction yWrap =
     \<lparr>n_direction = direction, n_indexes = Some grid_ids, n_collectionId = JStr ''grid'',
      n_context = JUndefined, n_collectionWidth = Some 3, n_yWrap = yWrap,
      n_xWrap = JUndefined\<rparr>"

text \<open>
  A focus object as the earlier revision stores it, and the grid with the item \<open>b\<close> of
  another collection, \<open>menu\<close>, in focus.
\<close>

definition focus_rev1_on :: "string \<Rightarrow> nat \<Rightarrow> jsval \<Rightarrow> FocusObject" where
  "focus_rev1_on i a context =
     \<lparr>fo_ref = JObj a, fo_DOMRef = JUndefined, fo_id = JStr i, fo_collectionId = JUndefined,
      fo_context = context, fo_applied = JUndefined\<rparr>"

definition menu_state :: state where
  "menu_state = grid_state\<lparr>focused := focus_rev1_on ''b'' 2 (JStr ''menu'')\<rparr>"

section \<open>Auxiliary facts\<close>

lemmas grid_defs = grid_state_def grid_heap_def grid_ids_def grid_opts_def focus_on_def
  element_def emptyObject_def getCurrentFocus_def indexesToUse_def obj_at_def obj_get_def
  DOWN_def LEFT_def

lemma fold_events:
  "fold (\<lambda>l st. st\<lparr>events := events st @ [E l]\<rparr>) ls st = st\<lparr>events := events st @ map E ls\<rparr>"
  by (induction ls arbitrary: st) simp_all

lemma setCurrentFocus_eq:
  "setCurrentFocus r s =
     (r, s\<lparr>focused := r,
           events := events s @ map (\<lambda>l. ListenerCall l (focused s) r) (focusListeners s)\<rparr>)"
  by (simp add: setCurrentFocus_def Let_def fold_events)

lemma indexOf_ge: "- 1 \<le> indexOf xs x"
  by (induction xs) (simp_all add: Let_def)

lemma indexOf_none: "indexOf xs x = - 1 \<longleftrightarrow> x \<notin> set xs"
proof (induction xs)
  case Nil
  show ?case by simp
next
  case (Cons y ys)
  have "- 1 \<le> indexOf ys x" by (rule indexOf_ge)
  with Cons show ?case by (auto simp: Let_def)
qed

lemma indexOf_nth: "indexOf xs x = int i \<Longrightarrow> i < length xs \<and> xs ! i = x"
proof (induction xs arbitrary: i)
  case Nil
  then show ?case by simp
next
  case (Cons y ys)
  show ?case
  proof (cases "y = x")
    case True
    with Cons.prems show ?thesis by simp
  next
    case False
    with Cons.prems have r: "indexOf ys x \<noteq> - 1" and e: "indexOf ys x + 1 = int i"
      by (auto simp: Let_def split: if_splits)
    have "- 1 \<le> indexOf ys x" by (rule indexOf_ge)
    with r e obtain j where j: "i = Suc j" "indexOf ys x = int j"
      by (cases i) auto
    with Cons.IH [of j] show ?thesis by simp
  qed
qed


lemma focus_falsy:
  "\<not> truthy ref \<Longrightarrow> focus ref opts s =
     (\<lparr>fo_ref = JNull, fo_DOMRef = JNull, fo_id = o_id opts,
       fo_collectionId = o_collectionId opts, fo_context = o_context opts,
       fo_applied = JBool False\<rparr>, s)"
  by (simp add: focus_def)

lemma get_dflt: "get c (dflt NotProvided i) s = get c i s"
  by (simp add: get_def dflt_def)

lemma get_NotProvided: "get c NotProvided s = get c JUndefined s"
  by (simp add: get_def dflt_def)

lemma static_focus_listener_calls:
  "listener_calls (events (snd (static_focus ref s))) = listener_calls (events s)"
  by (simp add: static_focus_def Let_def listener_calls_def is_listener_call_def)

lemma static_scrollTo_listener_calls:
  "listener_calls (events (snd (static_scrollTo ref options s))) = listener_calls (events s)"
  by (simp add: static_scrollTo_def Let_def listener_calls_def is_listener_call_def)

lemma scrollToById_listener_calls:
  "listener_calls (events (snd (scrollToById c i options s))) = listener_calls (events s)"
proof -
  obtain i' o' where a: "scrollToById_args (dflt NotProvided i) (dflt NotProvided options) = (i', o')"
    by (cases "scrollToById_args (dflt NotProvided i) (dflt NotProvided options)")
  show ?thesis
  proof (cases "truthy (get c i' s)")
    case True
    obtain r s1 where b: "static_scrollTo (get_prop (heap s) (get c i' s) ''DOMRef'') o' s = (r, s1)"
      by (cases "static_scrollTo (get_prop (heap s) (get c i' s) ''DOMRef'') o' s")
    have "listener_calls (events s1) = listener_calls (events s)"
      using static_scrollTo_listener_calls [of "get_prop (heap s) (get c i' s) ''DOMRef''" o' s] b
      by simp
    with True a b show ?thesis by (simp add: scrollToById_def Let_def)
  next
    case False
    with a show ?thesis by (simp add: scrollToById_def Let_def)
  qed
qed

lemma scrollToFocused_listener_calls:
  "listener_calls (events (snd (scrollToFocused options s))) = listener_calls (events s)"
proof -
  obtain r s1 where b: "static_scrollTo (fo_DOMRef (getCurrentFocus s)) (dflt NotProvided options) s = (r, s1)"
    by (cases "static_scrollTo (fo_DOMRef (getCurrentFocus s)) (dflt NotProvided options) s")
  have "listener_calls (events s1) = listener_calls (events s)"
    using static_scrollTo_listener_calls [of "fo_DOMRef (getCurrentFocus s)" "dflt NotProvided options" s] b
    by simp
  with b show ?thesis by (simp add: scrollToFocused_def Let_def)
qed

lemma set_ref_events:
  "(case set_ref c i r s of Inl e \<Rightarrow> events s | Inr s' \<Rightarrow> events s') = events s"
  by (simp add: set_ref_def Let_def split: sum.splits)

lemma focus_via_setCurrentFocus:
  "focus ref opts s =
     (if truthy ref then
        setCurrentFocus
          \<lparr>fo_ref = ref, fo_DOMRef = fst (static_focus ref s), fo_id = o_id opts,
           fo_collectionId = o_collectionId opts, fo_context = o_context opts,
           fo_applied = JBool (truthy (fst (static_focus ref s)))\<rparr>
          (snd (static_focus ref s))
      else
        (\<lparr>fo_ref = JNull, fo_DOMRef = JNull, fo_id = o_id opts,
          fo_collectionId = o_collectionId opts, fo_context = o_context opts,
          fo_applied = JBool False\<rparr>, s))"
  by (simp add: focus_def split_beta)

lemma focusById_is_focus: "\<exists>ref opts. focusById c i options s = focus ref opts s"
  by (auto simp: focusById_def Let_def split_beta)

lemma focusNext_is_focus: "\<exists>ref opts'. focusNext refCollection opts s = focus ref opts' s"
proof (cases "truthy refCollection")
  case True
  then show ?thesis by (auto simp: focusNext_def Let_def)
next
  case False
  have "focus JNull \<lparr>o_id = JUndefined, o_collectionId = n_collectionId opts,
          o_context = n_context opts\<rparr> s = focusNext refCollection opts s"
    using False by (simp add: focusNext_def focus_def Let_def)
  then show ?thesis by metis
qed

lemma focusNextById_is_focus: "\<exists>ref opts'. focusNextById c opts s = focus ref opts' s"
  using focusNext_is_focus by (simp add: focusNextById_def Let_def)



lemma obj_get_update: "obj_get (ob\<lparr>own := AList.update k v (own ob)\<rparr>) k = v"
  by (simp add: obj_get_def update_conv')

lemma removeFocusChangeListener_eq:
  "focusListeners (removeFocusChangeListener l s) =
     (let i = indexOf (focusListeners s) l
      in if i \<noteq> - 1 then take (nat i) (focusListeners s) @ drop (2 * nat i + 1) (focusListeners s)
         else focusListeners s)"
  by (simp add: removeFocusChangeListener_def splice_def splice_from_def Let_def add.commute mult_2)



section \<open>The claims\<close>

subsection \<open>C1: focusing an identifier that is not registered\<close>

text \<open>
  Claim C1, as the code has it: when \<open>focusById\<close> looks up an identifier, or a
  collection identifier with a truthy item identifier, and \<open>get\<close> answers \<open>undefined\<close>,
  the record returned has \<open>ref = null\<close>, \<open>DOMRef = null\<close> and \<open>applied = false\<close>, and the
  instance is left as it was: \<open>focus\<close> returns from its else branch without calling
  \<open>setCurrentFocus\<close>, so no event is added and no listener is called.
\<close>

theorem focusById_miss:
  assumes "get collectionId itemId s = JUndefined"
    and "itemId = JUndefined \<or> (truthy itemId \<and> typeof itemId \<noteq> ''object'')"
  shows "fo_ref (fst (focusById collectionId itemId options s)) = JNull
       \<and> fo_DOMRef (fst (focusById collectionId itemId options s)) = JNull
       \<and> fo_applied (fst (focusById collectionId itemId options s)) = JBool False
       \<and> snd (focusById collectionId itemId options s) = s"
proof -
  have miss: "\<And>opts. focus JUndefined opts s =
     (\<lparr>fo_ref = JNull, fo_DOMRef = JNull, fo_id = o_id opts,
       fo_collectionId = o_collectionId opts, fo_context = o_context opts,
       fo_applied = JBool False\<rparr>, s)"
    by (rule focus_falsy) simp
  show ?thesis
  proof (cases "dflt NotProvided options = NotProvided")
    case False
    then show ?thesis
      using assms(1) by (simp add: focusById_def Let_def get_dflt miss)
  next
    case True
    note absent = this
    show ?thesis
    proof (cases "dflt NotProvided itemId = NotProvided")
      case True
      then have "get collectionId JUndefined s = JUndefined"
        using assms(1) get_dflt [of collectionId itemId s] get_NotProvided [of collectionId s]
        by simp
      with True absent show ?thesis
        by (simp add: focusById_def focusById_args_def Let_def miss)
    next
      case False
      then have i: "dflt NotProvided itemId = itemId" "truthy itemId" "typeof itemId \<noteq> ''object''"
        using assms(2) by (auto simp: dflt_def)
      with False absent assms(1) show ?thesis
        by (simp add: focusById_def focusById_args_def Let_def miss)
    qed
  qed
qed

theorem focusById_miss_witness:
  "get (JStr ''grid'') (JStr ''z'') grid_state = JUndefined
   \<and> truthy (JStr ''z'') \<and> typeof (JStr ''z'') \<noteq> ''object''
   \<and> fo_ref (fst (focusById (JStr ''grid'') (JStr ''z'') JUndefined grid_state)) = JNull
   \<and> fo_applied (fst (focusById (JStr ''grid'') (JStr ''z'') JUndefined grid_state)) = JBool False
   \<and> snd (focusById (JStr ''grid'') (JStr ''z'') JUndefined grid_state) = grid_state"
proof -
  have h: "get (JStr ''grid'') (JStr ''z'') grid_state = JUndefined"
    by (simp add: get_def dflt_def NotProvided_def refs_at_def grid_state_def grid_heap_def
        js_and_def obj_at_def obj_get_def)
  show ?thesis
    using h focusById_miss [of "JStr ''grid''" "JStr ''z''" grid_state JUndefined] by simp
qed

text \<open>
  The claim as it is written fails: with the listeners \<open>0\<close> and \<open>1\<close> registered,
  \<open>focusById('missing')\<close> returns the failed record and the event sequence stays empty;
  listener \<open>0\<close> has not been called with that record.
\<close>

theorem focusById_miss_counterexample:
  "0 \<in> set (focusListeners grid_state)
   \<and> fo_ref (fst (focusById (JStr ''missing'') JUndefined JUndefined grid_state)) = JNull
   \<and> fo_applied (fst (focusById (JStr ''missing'') JUndefined JUndefined grid_state)) = JBool False
   \<and> events (snd (focusById (JStr ''missing'') JUndefined JUndefined grid_state)) = []
   \<and> ListenerCall 0 (focused grid_state)
        (fst (focusById (JStr ''missing'') JUndefined JUndefined grid_state))
      \<notin> set (events (snd (focusById (JStr ''missing'') JUndefined JUndefined grid_state)))"
  by (simp add: focusById_def focusById_args_def Let_def get_def dflt_def NotProvided_def
      refs_at_def grid_state_def focus_def)

subsection \<open>C2: focus without a ref\<close>

text \<open>
  Claim C2: \<open>focus\<close> called with a ref that is \<open>undefined\<close> or \<open>null\<close> returns the record
  with \<open>applied = false\<close>, \<open>ref = null\<close>, \<open>DOMRef = null\<close> and the \<open>id\<close>, \<open>collectionId\<close> and
  \<open>context\<close> of its options, and the state it returns is the state it was given: the
  current focus, the registry, the listeners, the heap and the events are unchanged.
\<close>

theorem focus_absent_ref:
  assumes "ref = JUndefined \<or> ref = JNull"
  shows "focus ref opts s =
           (\<lparr>fo_ref = JNull, fo_DOMRef = JNull, fo_id = o_id opts,
             fo_collectionId = o_collectionId opts, fo_context = o_context opts,
             fo_applied = JBool False\<rparr>, s)"
  using assms by (auto simp: focus_def)

theorem focus_absent_ref_witness:
  "(JNull = JUndefined \<or> JNull = JNull) \<and>
   focus JNull \<lparr>o_id = JStr ''b'', o_collectionId = JStr ''grid'', o_context = JNum 7\<rparr> grid_state =
     (\<lparr>fo_ref = JNull, fo_DOMRef = JNull, fo_id = JStr ''b'',
       fo_collectionId = JStr ''grid'', fo_context = JNum 7,
       fo_applied = JBool False\<rparr>, grid_state)"
  using focus_absent_ref [of JNull "\<lparr>o_id = JStr ''b'', o_collectionId = JStr ''grid'', o_context = JNum 7\<rparr>" grid_state]
  by simp

subsection \<open>C3: moving down from the last row with \<open>yWrap\<close>\<close>

text \<open>
  Claim C3 says that in a grid of six identifiers, three to a row, moving \<open>DOWN\<close> with
  \<open>yWrap = true\<close> from the identifier at index 4 selects the identifier at index 1, the
  slot of the same column in the top row. The code selects \<open>indexesToUse[0]\<close>: with the
  item \<open>e\<close> (index 4) in focus, \<open>focusNextById\<close> focuses the item \<open>a\<close> (index 0), not \<open>b\<close>.
\<close>

theorem focusNext_down_wrap_first:
  "fo_collectionId (getCurrentFocus grid_state) = JStr ''grid''
   \<and> indexOf grid_ids (fo_id (getCurrentFocus grid_state)) = 4
   \<and> nextRefId DOWN 3 (JBool True) JUndefined grid_ids 4 = grid_ids ! 0
   \<and> grid_ids ! 0 = JStr ''a'' \<and> grid_ids ! 1 = JStr ''b''
   \<and> focusNextById (JStr ''grid'') (grid_opts DOWN (JBool True)) grid_state =
       (focus_on ''a'' 1,
        grid_state\<lparr>focused := focus_on ''a'' 1,
          events := [FocusCall (JObj 1), ListenerCall 0 (focus_on ''e'' 5) (focus_on ''a'' 1),
                     ListenerCall 1 (focus_on ''e'' 5) (focus_on ''a'' 1)]\<rparr>)"
  by (simp add: focusNextById_def focusNext_def nextRefId_def focus_def static_focus_def
      setCurrentFocus_def get_def dflt_def refs_at_def NotProvided_def arr_at_def Let_def
      grid_defs RIGHT_def UP_def)

subsection \<open>C4: moving down a row\<close>




subsection \<open>C5: starting at the first identifier\<close>

text \<open>
  Claim C5, as the code has it, for a candidate sequence that is not empty. In the
  current revision, when the collection is present and the \<open>collectionId\<close> of the
  current focus differs from the one requested, or its \<open>id\<close> does not occur in the
  sequence, \<open>focusNext\<close> selects the first identifier of the sequence and passes its
  target to \<open>focus\<close>, whatever the direction, the width and the wrap flags are; when the
  collection is missing it returns the failed record, with no \<open>id\<close>, and changes
  nothing. In the earlier revision, \<open>focusNext\<close> selects the first identifier of a present
  collection when the \<open>id\<close> of the current focus does not occur in the sequence; it has
  no test on the collection the focus belongs to.
\<close>

theorem focusNext_reset:
  assumes "ixs = indexesToUse (heap s) refCollection (n_indexes opts)"
    and "ixs \<noteq> []"
  shows "(truthy refCollection
            \<and> (fo_collectionId (getCurrentFocus s) \<noteq> n_collectionId opts
                 \<or> fo_id (getCurrentFocus s) \<notin> set ixs) \<longrightarrow>
          focusNext refCollection opts s =
            focus (get_prop (heap s) refCollection (to_key (hd ixs)))
              \<lparr>o_id = hd ixs, o_collectionId = n_collectionId opts,
               o_context = n_context opts\<rparr> s)
       \<and> (\<not> truthy refCollection \<longrightarrow>
          focusNext refCollection opts s =
            (\<lparr>fo_ref = JNull, fo_DOMRef = JNull, fo_id = JUndefined,
              fo_collectionId = n_collectionId opts, fo_context = n_context opts,
              fo_applied = JBool False\<rparr>, s))
       \<and> (truthy refCollection \<and> fo_id (getCurrentFocus s) \<notin> set ixs \<longrightarrow>
          focusNext_rev1 refCollection opts s =
            (case focus_rev1 (get_prop (heap s) refCollection (to_key (hd ixs)))
                    \<lparr>o1_id = hd ixs, o1_context = n_context opts, o1_DOMOnly = JUndefined\<rparr> s of
               Inl e \<Rightarrow> Inl e
             | Inr (r, s1) \<Rightarrow> Inr (Some (getCurrentFocus s1), s1)))"
proof (intro conjI impI)
  have first: "arr_at ixs 0 = hd ixs"
    using assms(2) by (cases ixs) (simp_all add: arr_at_def)
  {
    assume h: "truthy refCollection
        \<and> (fo_collectionId (getCurrentFocus s) \<noteq> n_collectionId opts
             \<or> fo_id (getCurrentFocus s) \<notin> set ixs)"
    then have reset: "fo_collectionId (getCurrentFocus s) \<noteq> n_collectionId opts
        \<or> indexOf ixs (fo_id (getCurrentFocus s)) = - 1"
      by (simp add: indexOf_none)
    show "focusNext refCollection opts s =
            focus (get_prop (heap s) refCollection (to_key (hd ixs)))
              \<lparr>o_id = hd ixs, o_collectionId = n_collectionId opts,
               o_context = n_context opts\<rparr> s"
      using h reset first assms(1) [symmetric]
      by (auto simp: focusNext_def Let_def)
  }
  {
    assume "\<not> truthy refCollection"
    then show "focusNext refCollection opts s =
            (\<lparr>fo_ref = JNull, fo_DOMRef = JNull, fo_id = JUndefined,
              fo_collectionId = n_collectionId opts, fo_context = n_context opts,
              fo_applied = JBool False\<rparr>, s)"
      by (simp add: focusNext_def Let_def)
  }
  {
    assume h: "truthy refCollection \<and> fo_id (getCurrentFocus s) \<notin> set ixs"
    then have miss: "indexOf ixs (fo_id (getCurrentFocus s)) = - 1"
      by (simp add: indexOf_none)
    have present: "\<not> nullish refCollection"
      using h by (auto simp: nullish_def)
    show "focusNext_rev1 refCollection opts s =
            (case focus_rev1 (get_prop (heap s) refCollection (to_key (hd ixs)))
                    \<lparr>o1_id = hd ixs, o1_context = n_context opts, o1_DOMOnly = JUndefined\<rparr> s of
               Inl e \<Rightarrow> Inl e
             | Inr (r, s1) \<Rightarrow> Inr (Some (getCurrentFocus s1), s1))"
      using miss present first assms(1) [symmetric]
      by (simp add: focusNext_rev1_def Let_def)
  }
qed

theorem focusNext_reset_witness:
  "truthy (JObj 7)
   \<and> fo_collectionId (getCurrentFocus grid_state) \<noteq> JStr ''menu''
   \<and> focusNext (JObj 7) ((grid_opts DOWN (JBool True))\<lparr>n_collectionId := JStr ''menu''\<rparr>) grid_state =
       focus (JObj 1) \<lparr>o_id = JStr ''a'', o_collectionId = JStr ''menu'', o_context = JUndefined\<rparr>
         grid_state
   \<and> fo_id (getCurrentFocus (grid_state\<lparr>focused := focus_on ''z'' 0\<rparr>)) \<notin> set grid_ids
   \<and> focusNext (JObj 7) (grid_opts LEFT JUndefined) (grid_state\<lparr>focused := focus_on ''z'' 0\<rparr>) =
       focus (JObj 1) \<lparr>o_id = JStr ''a'', o_collectionId = JStr ''grid'', o_context = JUndefined\<rparr>
         (grid_state\<lparr>focused := focus_on ''z'' 0\<rparr>)
   \<and> focusNext_rev1 (JObj 7) (grid_opts LEFT JUndefined) (grid_state\<lparr>focused := focus_on ''z'' 0\<rparr>) =
       (case focus_rev1 (JObj 1)
               \<lparr>o1_id = JStr ''a'', o1_context = JUndefined, o1_DOMOnly = JUndefined\<rparr>
               (grid_state\<lparr>focused := focus_on ''z'' 0\<rparr>) of
          Inl e \<Rightarrow> Inl e
        | Inr (r, s1) \<Rightarrow> Inr (Some (getCurrentFocus s1), s1))"
  using focusNext_reset [where refCollection = "JObj 7" and ixs = grid_ids and s = grid_state
        and opts = "(grid_opts DOWN (JBool True))\<lparr>n_collectionId := JStr ''menu''\<rparr>"]
    focusNext_reset [where refCollection = "JObj 7" and ixs = grid_ids
        and s = "grid_state\<lparr>focused := focus_on ''z'' 0\<rparr>"
        and opts = "grid_opts LEFT JUndefined"]
  by (simp add: grid_defs)

text \<open>
  The claim as it is written fails. In the earlier revision, with the item \<open>b\<close> of the
  collection \<open>menu\<close> in focus, \<open>focusNext\<close> over the grid \<open>a\<close> to \<open>f\<close> finds \<open>b\<close> at index 1
  and moves right to \<open>c\<close>; the first identifier, \<open>a\<close>, is not selected. In the current
  revision, with the collection missing and the sequence given, the record returned has
  no \<open>id\<close> and nothing is focused.
\<close>

theorem focusNext_reset_counterexample:
  "fo_collectionId (getCurrentFocus menu_state) \<noteq> n_collectionId (grid_opts RIGHT JUndefined)
   \<and> hd grid_ids = JStr ''a''
   \<and> focusNext_rev1 (JObj 7) (grid_opts RIGHT JUndefined) menu_state =
       Inr (Some (focus_rev1_on ''c'' 3 JUndefined),
            menu_state\<lparr>focused := focus_rev1_on ''c'' 3 JUndefined,
              events := [FocusCall (JObj 3),
                ListenerCall 0 (focus_rev1_on ''b'' 2 (JStr ''menu'')) (focus_rev1_on ''c'' 3 JUndefined),
                ListenerCall 1 (focus_rev1_on ''b'' 2 (JStr ''menu'')) (focus_rev1_on ''c'' 3 JUndefined)]\<rparr>)
   \<and> fo_collectionId (getCurrentFocus grid_state) \<noteq> JStr ''menu''
   \<and> focusNext JUndefined ((grid_opts RIGHT JUndefined)\<lparr>n_collectionId := JStr ''menu''\<rparr>)
        grid_state =
       (\<lparr>fo_ref = JNull, fo_DOMRef = JNull, fo_id = JUndefined,
         fo_collectionId = JStr ''menu'', fo_context = JUndefined,
         fo_applied = JBool False\<rparr>, grid_state)"
  by (simp add: focusNext_rev1_def focus_rev1_def focusNext_def nextRefId_def setCurrentFocus_def
      arr_at_def dflt_def nullish_def Let_def menu_state_def focus_rev1_on_def grid_defs
      RIGHT_def UP_def)

subsection \<open>C6: one namespace for both kinds of registration\<close>

text \<open>
  Claim C6, as the code has it. Both kinds of registration write the entry of \<open>k\<close> in
  one table. A singular registration \<open>set(k, target)\<close> replaces whatever the entry held,
  and \<open>get(k)\<close> answers \<open>target\<close> afterwards. A collection registration
  \<open>set(k, itemId, target)\<close> made when the entry holds an object does not replace it: the
  table is unchanged, \<open>target\<close> becomes the property \<open>itemId\<close> of that object, \<open>get(k)\<close>
  still answers the object and \<open>get(k, itemId)\<close> answers \<open>target\<close>.
\<close>

theorem set_ref_namespace:
  assumes "k \<noteq> JUndefined" and "target \<noteq> JUndefined" and "target \<noteq> NotProvided"
  shows "set_ref k target JUndefined s = Inr (s\<lparr>refs := (refs s)(to_key k \<mapsto> target)\<rparr>)
       \<and> get k JUndefined (s\<lparr>refs := (refs s)(to_key k \<mapsto> target)\<rparr>) = target
       \<and> (refs s (to_key k) = Some (JObj a) \<and> a < length (heap s)
             \<and> itemId \<noteq> JUndefined \<and> itemId \<noteq> NotProvided \<longrightarrow>
           (\<exists>s'. set_ref k itemId target s = Inr s' \<and> refs s' = refs s
                 \<and> get k JUndefined s' = JObj a \<and> get k itemId s' = target))"
proof (intro conjI impI)
  show "set_ref k target JUndefined s = Inr (s\<lparr>refs := (refs s)(to_key k \<mapsto> target)\<rparr>)"
    using assms(2) by (simp add: set_ref_def dflt_def Let_def)
  show "get k JUndefined (s\<lparr>refs := (refs s)(to_key k \<mapsto> target)\<rparr>) = target"
    using assms(1) by (simp add: get_def dflt_def refs_at_def)
next
  assume h: "refs s (to_key k) = Some (JObj a) \<and> a < length (heap s)
      \<and> itemId \<noteq> JUndefined \<and> itemId \<noteq> NotProvided"
  let ?h = "(heap s)[a := (obj_at (heap s) a)\<lparr>own := AList.update (to_key itemId) target
                (own (obj_at (heap s) a))\<rparr>]"
  have 1: "set_ref k itemId target s = Inr (s\<lparr>heap := ?h\<rparr>)"
    using h assms(2,3) by (simp add: set_ref_def dflt_def Let_def refs_at_def)
  have 2: "get k JUndefined (s\<lparr>heap := ?h\<rparr>) = JObj a"
    using h assms(1) by (simp add: get_def dflt_def refs_at_def)
  have 3: "get k itemId (s\<lparr>heap := ?h\<rparr>) = target"
    using h assms(1) by (simp add: get_def dflt_def refs_at_def js_and_def obj_at_def obj_get_update)
  show "\<exists>s'. set_ref k itemId target s = Inr s' \<and> refs s' = refs s
      \<and> get k JUndefined s' = JObj a \<and> get k itemId s' = target"
    using 1 2 3 by simp
qed

theorem set_ref_namespace_witness:
  "refs grid_state (to_key (JStr ''toolbar'')) = Some (JObj 8) \<and> 8 < length (heap grid_state)
   \<and> get (JStr ''toolbar'') JUndefined
        (grid_state\<lparr>refs := (refs grid_state)(to_key (JStr ''toolbar'') \<mapsto> JObj 1)\<rparr>) = JObj 1
   \<and> (\<exists>s'. set_ref (JStr ''toolbar'') (JStr ''x'') (JObj 1) grid_state = Inr s'
          \<and> refs s' = refs grid_state
          \<and> get (JStr ''toolbar'') JUndefined s' = JObj 8
          \<and> get (JStr ''toolbar'') (JStr ''x'') s' = JObj 1)"
proof -
  have h: "refs grid_state (to_key (JStr ''toolbar'')) = Some (JObj 8) \<and> 8 < length (heap grid_state)"
    by (simp add: grid_state_def grid_heap_def)
  show ?thesis
    using h set_ref_namespace [of "JStr ''toolbar''" "JObj 1" grid_state 8 "JStr ''x''"]
    by (simp add: NotProvided_def)
qed

text \<open>
  The claim as it is written fails: after \<open>set('k', toolbar)\<close> and then
  \<open>set('k', 'i', item)\<close>, the later registration has not replaced the earlier one;
  \<open>get('k')\<close> still answers the toolbar element, which now carries the property \<open>i\<close>.
\<close>

theorem set_ref_namespace_counterexample:
  "set_ref (JStr ''k'') (JObj 8) JUndefined (constructor grid_heap []) =
     Inr ((constructor grid_heap [])\<lparr>refs := [''k'' \<mapsto> JObj 8]\<rparr>)
   \<and> set_ref (JStr ''k'') (JStr ''i'') (JObj 1) ((constructor grid_heap [])\<lparr>refs := [''k'' \<mapsto> JObj 8]\<rparr>) =
     Inr ((constructor grid_heap [])\<lparr>refs := [''k'' \<mapsto> JObj 8],
            heap := grid_heap[8 := element\<lparr>own := [(''i'', JObj 1)]\<rparr>]\<rparr>)
   \<and> get (JStr ''k'') JUndefined
        ((constructor grid_heap [])\<lparr>refs := [''k'' \<mapsto> JObj 8],
            heap := grid_heap[8 := element\<lparr>own := [(''i'', JObj 1)]\<rparr>]\<rparr>) = JObj 8"
  by (simp add: set_ref_def get_def dflt_def NotProvided_def Let_def refs_at_def constructor_def
      grid_heap_def obj_at_def element_def)

subsection \<open>C7: the listeners are called by \<open>setCurrentFocus\<close> and nowhere else\<close>

text \<open>
  Claim C7: \<open>setCurrentFocus(r)\<close> stores \<open>r\<close> as the current focus, calls every
  registered listener once, in the order of the listener list (which
  \<open>addFocusChangeListener\<close> extends at its end), each with the previous focus and \<open>r\<close>,
  and returns \<open>r\<close>. No other method calls a listener: \<open>focus\<close> either ends in
  \<open>setCurrentFocus\<close> or changes nothing, \<open>focusById\<close>, \<open>focusNext\<close> and \<open>focusNextById\<close>
  end in \<open>focus\<close>, and the static methods, the scroll methods, \<open>set\<close> and the two
  listener methods add no listener call to the events (\<open>get\<close>, \<open>getCurrentFocus\<close> and
  \<open>isFocusedRefInDOM\<close> only read).
\<close>

theorem setCurrentFocus_listeners:
  "setCurrentFocus r s =
     (r, s\<lparr>focused := r,
           events := events s @ map (\<lambda>l. ListenerCall l (focused s) r) (focusListeners s)\<rparr>)
   \<and> focus ref opts s =
       (if truthy ref then
          setCurrentFocus
            \<lparr>fo_ref = ref, fo_DOMRef = fst (static_focus ref s), fo_id = o_id opts,
             fo_collectionId = o_collectionId opts, fo_context = o_context opts,
             fo_applied = JBool (truthy (fst (static_focus ref s)))\<rparr>
            (snd (static_focus ref s))
        else
          (\<lparr>fo_ref = JNull, fo_DOMRef = JNull, fo_id = o_id opts,
            fo_collectionId = o_collectionId opts, fo_context = o_context opts,
            fo_applied = JBool False\<rparr>, s))
   \<and> (\<exists>ref' opts'. focusById c i options s = focus ref' opts' s)
   \<and> (\<exists>ref' opts'. focusNext refCollection nopts s = focus ref' opts' s)
   \<and> (\<exists>ref' opts'. focusNextById c nopts s = focus ref' opts' s)
   \<and> listener_calls (events (snd (static_focus ref s))) = listener_calls (events s)
   \<and> listener_calls (events (snd (static_scrollTo ref options s))) = listener_calls (events s)
   \<and> listener_calls (events (snd (scrollToById c i options s))) = listener_calls (events s)
   \<and> listener_calls (events (snd (scrollToFocused options s))) = listener_calls (events s)
   \<and> (case set_ref c i ref s of Inl e \<Rightarrow> events s | Inr s' \<Rightarrow> events s') = events s
   \<and> events (snd (addFocusChangeListener l s)) = events s
   \<and> focusListeners (snd (addFocusChangeListener l s)) = focusListeners s @ [l]
   \<and> events (removeFocusChangeListener l s) = events s"
proof (intro conjI)
  show "events (snd (addFocusChangeListener l s)) = events s"
    by (simp add: addFocusChangeListener_def)
  show "focusListeners (snd (addFocusChangeListener l s)) = focusListeners s @ [l]"
    by (simp add: addFocusChangeListener_def)
  show "events (removeFocusChangeListener l s) = events s"
    by (simp add: removeFocusChangeListener_def Let_def split_beta)
qed (rule setCurrentFocus_eq focus_via_setCurrentFocus focusById_is_focus focusNext_is_focus
      focusNextById_is_focus static_focus_listener_calls static_scrollTo_listener_calls
      scrollToById_listener_calls scrollToFocused_listener_calls set_ref_events)+

theorem setCurrentFocus_listeners_witness:
  "setCurrentFocus (focus_on ''b'' 2) grid_state =
     (focus_on ''b'' 2,
      grid_state\<lparr>focused := focus_on ''b'' 2,
        events := [ListenerCall 0 (focus_on ''e'' 5) (focus_on ''b'' 2),
                   ListenerCall 1 (focus_on ''e'' 5) (focus_on ''b'' 2)]\<rparr>)"
  using setCurrentFocus_listeners [where r = "focus_on ''b'' 2" and s = grid_state]
  by (simp add: grid_state_def)

subsection \<open>C8: removing a listener\<close>

text \<open>
  Claim C8 says that \<open>removeFocusChangeListener(L)\<close> removes \<open>L\<close> and nothing else. The
  code builds the new list from two \<open>splice\<close> calls on the same array; the first call
  has already cut the front off when the second one counts its start index. With the
  listeners \<open>0\<close>, \<open>1\<close>, \<open>2\<close> registered, removing \<open>1\<close> leaves only \<open>0\<close>: listener \<open>2\<close> is
  dropped as well. With \<open>0\<close>, \<open>1\<close>, \<open>2\<close>, \<open>3\<close> registered, removing \<open>1\<close> leaves \<open>0\<close> and \<open>3\<close>.
\<close>

theorem removeFocusChangeListener_drops_more:
  "focusListeners (removeFocusChangeListener 1 (grid_state\<lparr>focusListeners := [0, 1, 2]\<rparr>)) = [0]
   \<and> focusListeners (removeFocusChangeListener 1 (grid_state\<lparr>focusListeners := [0, 1, 2, 3]\<rparr>))
       = [0, 3]"
  by (simp add: removeFocusChangeListener_def splice_def splice_from_def Let_def)

subsection \<open>C9: scrolling to a registered ref\<close>

text \<open>
  Claim C9 says that \<open>scrollToById\<close> asks for the registered target to be scrolled into
  view. The code passes \<open>ref.DOMRef\<close>, a property of the registered ref, to
  \<open>RefManager.scrollTo\<close>. A DOM element has no such property: for the element registered
  as item \<open>a\<close> of \<open>grid\<close>, which \<open>RefManager.scrollTo\<close> itself would scroll,
  \<open>scrollToById('grid', 'a')\<close> calls no \<open>scrollIntoView\<close> and answers \<open>applied = false\<close>.
\<close>

theorem scrollToById_scrolls_nothing:
  "get (JStr ''grid'') (JStr ''a'') grid_state = JObj 1
   \<and> static_scrollTo (JObj 1) JUndefined grid_state =
       (JObj 1, grid_state\<lparr>events := [ScrollIntoViewCall (JObj 1) []]\<rparr>)
   \<and> scrollToById (JStr ''grid'') (JStr ''a'') JUndefined grid_state =
       (\<lparr>so_id = JStr ''a'', so_collectionId = JStr ''grid'', so_ref = JObj 1,
         so_DOMRef = JNull, so_applied = JBool False\<rparr>, grid_state)"
  by (simp add: scrollToById_def scrollToById_args_def static_scrollTo_def get_def dflt_def
      refs_at_def NotProvided_def js_and_def Let_def grid_defs)

subsection \<open>C10: the second argument of \<open>scrollToById\<close>\<close>

text \<open>
  Claim C10: when \<open>scrollToById\<close> is called with two arguments and the second one is not
  a string (a number, for instance), the item identifier is \<open>NotProvided\<close> and the second
  argument is the options value: the ref is the entry stored under \<open>collectionId\<close>
  itself, and the options are what \<open>RefManager.scrollTo\<close> receives. Conversely, the
  second argument is taken as the item identifier only if it is a string.
\<close>

theorem scrollToById_second_argument:
  assumes "v \<noteq> JUndefined" and "typeof v \<noteq> ''string''"
  shows "scrollToById_args (dflt NotProvided v) (dflt NotProvided JUndefined) = (NotProvided, v)
       \<and> scrollToById c v JUndefined s =
          (if truthy (get c JUndefined s) then
             (\<lparr>so_id = NotProvided, so_collectionId = c, so_ref = get c JUndefined s,
               so_DOMRef = fst (static_scrollTo (get_prop (heap s) (get c JUndefined s) ''DOMRef'') v s),
               so_applied = JBool (truthy (fst (static_scrollTo
                  (get_prop (heap s) (get c JUndefined s) ''DOMRef'') v s)))\<rparr>,
              snd (static_scrollTo (get_prop (heap s) (get c JUndefined s) ''DOMRef'') v s))
           else
             (\<lparr>so_id = NotProvided, so_collectionId = c, so_ref = JNull, so_DOMRef = JNull,
               so_applied = JBool False\<rparr>, s))
       \<and> (scrollToById_args (dflt NotProvided w) (dflt NotProvided JUndefined) = (w, NotProvided)
            \<longrightarrow> typeof w = ''string'')"
proof -
  have v: "dflt NotProvided v = v" "v \<noteq> NotProvided"
    using assms by (auto simp: dflt_def NotProvided_def)
  have args: "scrollToById_args (dflt NotProvided v) (dflt NotProvided JUndefined) = (NotProvided, v)"
    using v assms(2) by (simp add: scrollToById_args_def dflt_def)
  have only_if: "scrollToById_args (dflt NotProvided w) (dflt NotProvided JUndefined) = (w, NotProvided)
            \<longrightarrow> typeof w = ''string''"
    by (auto simp: scrollToById_args_def dflt_def NotProvided_def split: if_splits)
  have run: "scrollToById c v JUndefined s =
          (if truthy (get c JUndefined s) then
             (\<lparr>so_id = NotProvided, so_collectionId = c, so_ref = get c JUndefined s,
               so_DOMRef = fst (static_scrollTo (get_prop (heap s) (get c JUndefined s) ''DOMRef'') v s),
               so_applied = JBool (truthy (fst (static_scrollTo
                  (get_prop (heap s) (get c JUndefined s) ''DOMRef'') v s)))\<rparr>,
              snd (static_scrollTo (get_prop (heap s) (get c JUndefined s) ''DOMRef'') v s))
           else
             (\<lparr>so_id = NotProvided, so_collectionId = c, so_ref = JNull, so_DOMRef = JNull,
               so_applied = JBool False\<rparr>, s))"
    using args by (simp add: scrollToById_def Let_def split_beta get_NotProvided)
  show ?thesis using args run only_if by blast
qed

theorem scrollToById_second_argument_witness:
  "JNum 2 \<noteq> JUndefined \<and> typeof (JNum 2) \<noteq> ''string''
   \<and> get (JStr ''toolbar'') JUndefined grid_state = JObj 8
   \<and> scrollToById (JStr ''toolbar'') (JNum 2) JUndefined grid_state =
       (\<lparr>so_id = NotProvided, so_collectionId = JStr ''toolbar'', so_ref = JObj 8,
         so_DOMRef = JNull, so_applied = JBool False\<rparr>, grid_state)"
proof -
  have g: "get (JStr ''toolbar'') JUndefined grid_state = JObj 8"
    by (simp add: get_def dflt_def refs_at_def grid_state_def NotProvided_def)
  have d: "get_prop (heap grid_state) (JObj 8) ''DOMRef'' = JUndefined"
    by (simp add: grid_defs)
  have "static_scrollTo JUndefined (JNum 2) grid_state = (JNull, grid_state)"
    by (simp add: static_scrollTo_def)
  with g d show ?thesis
    using scrollToById_second_argument [where v = "JNum 2" and c = "JStr ''toolbar''"
        and s = grid_state]
    by simp
qed

end
